theory Spec2Isabelle
  imports Main "HOL-Library.AList" "HOL-Library.Char_ord" "HOL-Library.List_Lexorder"
begin

section \<open>DBus properties of PlainBox objects (plainbox/impl/dbus/service.py)\<close>

text \<open>
  The module adds DBus properties to \<^verbatim>\<open>dbus.service.Object\<close>: a descriptor class
  \<^verbatim>\<open>property\<close>, and a class \<^verbatim>\<open>Object\<close> with \<^verbatim>\<open>Get\<close>, \<^verbatim>\<open>Set\<close>,
  \<^verbatim>\<open>GetAll\<close> and a per-class map from interface name to property name to attribute
  name. Python dictionaries are association lists in insertion order (\<open>map_of\<close> reads,
  \<open>AList.update\<close> writes: a new key goes last, an old key keeps its place). Exceptions
  are the \<open>Inl\<close> results, and everything the code mutates is a field of \<open>world\<close>.
\<close>

subsection \<open>Values, exceptions, log records, signals\<close>

text \<open>Python values that cross \<^verbatim>\<open>Get\<close> and \<^verbatim>\<open>Set\<close>; \<open>PyObj i\<close> is the instance
  with identity \<open>i\<close>.\<close>

datatype pyval = PyNone | PyBool bool | PyInt int | PyStr string | PyObj nat

text \<open>
  The handlers of \<^verbatim>\<open>Get\<close> and \<^verbatim>\<open>Set\<close> tell three kinds of exception apart:
  \<^verbatim>\<open>dbus.exceptions.DBusException\<close> (with its positional arguments), any other
  subclass of \<^verbatim>\<open>Exception\<close> (its type name and its \<^verbatim>\<open>repr\<close>), and a
  \<^verbatim>\<open>BaseException\<close> outside \<^verbatim>\<open>Exception\<close>, such as KeyboardInterrupt.
\<close>

datatype py_exc =
    DBusException "string list"
  | OtherException string string
  | NonException string string

text \<open>A property name as the code holds it: a str, or None for a descriptor that was
  built without a name and never used as a decorator.\<close>

type_synonym pykey = "string option"

text \<open>The property-interface map: interface name to property name to attribute name.\<close>

type_synonym pif = "(string \<times> (pykey \<times> string) list) list"

datatype logarg =
    LStr string
  | LKey pykey
  | LVal pyval
  | LPif pif
  | LCls string
  | LDescr string pykey
  | LChanged "(string \<times> pyval) list"
  | LNames "string list"

datatype log_record =
    Debug string "logarg list"
  | LogException string "logarg list" py_exc

datatype signal = Signal nat string "(string \<times> pyval) list" "string list"

subsection \<open>The mutable state\<close>

text \<open>
  \<open>pim\<close> holds, by class name, the attribute \<^verbatim>\<open>_property_iface_map\<close> that
  \<^verbatim>\<open>_get_property_iface_map\<close> has assigned on that class; a class with no entry still
  has what its body declares (see \<open>declared_pim\<close> below). \<open>idicts\<close> are the instance
  dictionaries, \<open>logged\<close> the records of the logger \<^verbatim>\<open>plainbox.dbus\<close>, \<open>signals\<close> the
  signals emitted on the bus, oldest first.
\<close>

record world =
  pim :: "(string \<times> pif) list"
  idicts :: "(nat \<times> (string \<times> pyval) list) list"
  logged :: "log_record list"
  signals :: "signal list"

type_synonym 'a result = "(py_exc + 'a) \<times> world"

text \<open>
  A Python callable: its arguments and the state in, its return value or the
  exception it raises and the state out. \<open>func_truth\<close> is what a boolean test of the
  object gives: True for every function object; an object with \<^verbatim>\<open>__call__\<close> may
  define \<^verbatim>\<open>__bool__\<close> or \<^verbatim>\<open>__len__\<close> and test false.
\<close>

type_synonym callable = "pyval list \<Rightarrow> world \<Rightarrow> pyval result"

record pyfunc =
  func_name :: string
  func_doc :: "string option"
  func_truth :: bool
  func_call :: callable

definition log_debug :: "string \<Rightarrow> logarg list \<Rightarrow> world \<Rightarrow> world" where
  "log_debug fmt args w = w\<lparr>logged := logged w @ [Debug fmt args]\<rparr>"

definition log_exception :: "string \<Rightarrow> logarg list \<Rightarrow> py_exc \<Rightarrow> world \<Rightarrow> world" where
  "log_exception fmt args exc w = w\<lparr>logged := logged w @ [LogException fmt args exc]\<rparr>"

definition inst_dict :: "world \<Rightarrow> nat \<Rightarrow> (string \<times> pyval) list" where
  "inst_dict w i = (case map_of (idicts w) i of None \<Rightarrow> [] | Some d \<Rightarrow> d)"

subsection \<open>class property\<close>

record property =
  dunder_name :: "string option"
  dunder_doc :: "string option"
  signature :: string
  dbus_interface :: string
  dbus_property :: pykey
  getf :: "pyfunc option"
  setf :: "pyfunc option"
  implicit_setter :: bool

text \<open>\<^verbatim>\<open>__init__(self, signature, dbus_interface, dbus_property=None, setter=False)\<close>\<close>

definition property_init :: "string \<Rightarrow> string \<Rightarrow> pykey \<Rightarrow> bool \<Rightarrow> property" where
  "property_init sig iface prop is_setter =
     \<lparr>dunder_name = None, dunder_doc = None, signature = sig, dbus_interface = iface,
      dbus_property = prop, getf = None, setf = None, implicit_setter = is_setter\<rparr>"

text \<open>The truth value of \<^verbatim>\<open>self._getf\<close> or \<^verbatim>\<open>self._setf\<close>: None is false, a bound
  accessor is as true as the object is.\<close>

definition truthy :: "pyfunc option \<Rightarrow> bool" where
  "truthy f = (case f of None \<Rightarrow> False | Some g \<Rightarrow> func_truth g)"

text \<open>\<^verbatim>\<open>dbus_access_flag\<close> tests the truth values, \<^verbatim>\<open>if self._getf and self._setf\<close>;
  \<^verbatim>\<open>__get__\<close> and \<^verbatim>\<open>__set__\<close> below test \<^verbatim>\<open>is None\<close>.\<close>

definition dbus_access_flag :: "property \<Rightarrow> py_exc + string" where
  "dbus_access_flag self =
     (if truthy (getf self) \<and> truthy (setf self) then Inr ''readwrite''
      else if truthy (getf self) then Inr ''read''
      else if truthy (setf self) then Inr ''write''
      else Inl (OtherException ''TypeError''
             ''TypeError('property provides neither readable nor writable')''))"

text \<open>The decorators \<^verbatim>\<open>setter\<close> and \<^verbatim>\<open>getter\<close> store the function and return the
  descriptor; \<^verbatim>\<open>__call__\<close> names the descriptor after the function it decorates.\<close>

definition setter :: "property \<Rightarrow> pyfunc \<Rightarrow> property" where
  "setter self func = self\<lparr>setf := Some func\<rparr>"

definition getter :: "property \<Rightarrow> pyfunc \<Rightarrow> property" where
  "getter self func = self\<lparr>getf := Some func\<rparr>"

definition property_call :: "property \<Rightarrow> pyfunc \<Rightarrow> property" where
  "property_call self func =
     (let s1 = self\<lparr>dunder_name := Some (func_name func)\<rparr>;
          s2 = (if dunder_doc s1 = None then s1\<lparr>dunder_doc := func_doc func\<rparr> else s1);
          s3 = (if dbus_property s2 = None
                then s2\<lparr>dbus_property := Some (func_name func)\<rparr> else s2)
      in if implicit_setter s3 then setter s3 func else getter s3 func)"

text \<open>\<^verbatim>\<open>__get__\<close> on an instance (the branch \<^verbatim>\<open>instance is not None\<close>).\<close>

definition read :: "property \<Rightarrow> nat \<Rightarrow> world \<Rightarrow> pyval result" where
  "read self instance w =
     (case getf self of
        None \<Rightarrow> (Inl (DBusException [''property is not readable'']), w)
      | Some f \<Rightarrow> func_call f [PyObj instance] w)"

text \<open>\<^verbatim>\<open>__get__(self, instance, owner)\<close>: on the class (\<^verbatim>\<open>instance is None\<close>) the
  descriptor itself, \<open>Inl self\<close>; on an instance the value read, \<open>Inr v\<close>.\<close>

definition property_get :: "property \<Rightarrow> nat option \<Rightarrow> world \<Rightarrow> (property + pyval) result" where
  "property_get self instance w =
     (case instance of
        None \<Rightarrow> (Inr (Inl self), w)
      | Some i \<Rightarrow>
          (case read self i w of
             (Inl e, w') \<Rightarrow> (Inl e, w')
           | (Inr v, w') \<Rightarrow> (Inr (Inr v), w')))"

text \<open>\<^verbatim>\<open>__set__(self, instance, value)\<close>: the setter's return value is dropped.\<close>

definition property_set :: "property \<Rightarrow> nat \<Rightarrow> pyval \<Rightarrow> world \<Rightarrow> pyval result" where
  "property_set self instance v w =
     (case setf self of
        None \<Rightarrow> (Inl (DBusException [''property is not writable'']), w)
      | Some f \<Rightarrow>
          (case func_call f [PyObj instance, v] w of
             (Inl e, w') \<Rightarrow> (Inl e, w')
           | (Inr r, w') \<Rightarrow> (Inr PyNone, w')))"

subsection \<open>Classes and attribute access\<close>

text \<open>
  An attribute of a class dictionary is a DBus property descriptor or anything else
  (a plain value here). A class has a name (its identity), its own \<^verbatim>\<open>__dict__\<close> and
  the rest of its \<^verbatim>\<open>__mro__\<close>, nearest first. The entry \<^verbatim>\<open>_property_iface_map\<close>
  of the class body is kept apart from the other names, in \<open>declared_pim\<close>: \<open>None\<close>
  when the body has no such entry, \<open>Some None\<close> for \<^verbatim>\<open>_property_iface_map = None\<close>
  (as class Object has it on line 321), \<open>Some (Some m)\<close> for a dictionary.
\<close>

datatype attr = DBusProp property | Other pyval

datatype pyclass =
  PyClass (cname: string) (cdict: "(string \<times> attr) list") (declared_pim: "pif option option")
    (ancestors: "pyclass list")

definition mro :: "pyclass \<Rightarrow> pyclass list" where
  "mro cls = cls # ancestors cls"

text \<open>\<^verbatim>\<open>dir(cls)\<close>: the names of the class and of its bases, sorted, each once.\<close>

definition dir_cls :: "pyclass \<Rightarrow> string list" where
  "dir_cls cls = sort (remdups (concat (map (\<lambda>c. map fst (cdict c)) (mro cls))))"

text \<open>The first class of a method resolution order that has the name in its dictionary.\<close>

fun find_attr :: "pyclass list \<Rightarrow> string \<Rightarrow> attr option" where
  "find_attr [] n = None"
| "find_attr (c # cs) n =
     (case map_of (cdict c) n of Some a \<Rightarrow> Some a | None \<Rightarrow> find_attr cs n)"

text \<open>
  \<^verbatim>\<open>getattr(self, name)\<close> for an instance of \<open>cls\<close>: a \<^verbatim>\<open>property\<close> found on the type
  is a data descriptor (it has \<^verbatim>\<open>__get__\<close> and \<^verbatim>\<open>__set__\<close>) and wins over the
  instance dictionary; otherwise the instance dictionary, then the class attribute,
  then AttributeError.
\<close>

definition attribute_error :: "pyclass \<Rightarrow> string \<Rightarrow> py_exc" where
  "attribute_error cls n =
     OtherException ''AttributeError''
       (''AttributeError('' @ [CHR 0x22, CHR 0x27] @ cname cls @ [CHR 0x27]
          @ '' object has no attribute '' @ [CHR 0x27] @ n @ [CHR 0x27, CHR 0x22] @ '')'')"

definition getattr_obj :: "pyclass \<Rightarrow> nat \<Rightarrow> string \<Rightarrow> world \<Rightarrow> pyval result" where
  "getattr_obj cls self n w =
     (case find_attr (mro cls) n of
        Some (DBusProp p) \<Rightarrow> read p self w
      | Some (Other v) \<Rightarrow>
          (case map_of (inst_dict w self) n of Some v' \<Rightarrow> (Inr v', w) | None \<Rightarrow> (Inr v, w))
      | None \<Rightarrow>
          (case map_of (inst_dict w self) n of
             Some v' \<Rightarrow> (Inr v', w)
           | None \<Rightarrow> (Inl (attribute_error cls n), w)))"

text \<open>\<^verbatim>\<open>setattr(self, name, value)\<close>: the descriptor's \<^verbatim>\<open>__set__\<close>, or else the
  instance dictionary.\<close>

definition setattr_obj :: "pyclass \<Rightarrow> nat \<Rightarrow> string \<Rightarrow> pyval \<Rightarrow> world \<Rightarrow> pyval result" where
  "setattr_obj cls self n v w =
     (case find_attr (mro cls) n of
        Some (DBusProp p) \<Rightarrow> property_set p self v w
      | _ \<Rightarrow>
          (Inr PyNone,
           w\<lparr>idicts := AList.update self (AList.update n v (inst_dict w self)) (idicts w)\<rparr>))"

subsection \<open>class Object: the property-interface map\<close>

text \<open>
  \<^verbatim>\<open>pif[obj._dbus_interface][obj._dbus_property] = name\<close>, after the interface got an
  empty dictionary if it had none.
\<close>

definition pif_store :: "string \<Rightarrow> pykey \<Rightarrow> string \<Rightarrow> pif \<Rightarrow> pif" where
  "pif_store iface prop n pif =
     (let pif1 = (if map_of pif iface = None then AList.update iface [] pif else pif)
      in AList.update iface
           (AList.update prop n (case map_of pif1 iface of None \<Rightarrow> [] | Some d \<Rightarrow> d)) pif1)"

text \<open>
  The loop of \<^verbatim>\<open>_build_property_iface_map\<close> over \<^verbatim>\<open>dir(cls)\<close>: each name is looked
  up in the class's own dictionary, \<^verbatim>\<open>cls.__dict__.get(name)\<close>, and kept when the
  object found is a \<^verbatim>\<open>property\<close>.
\<close>

fun build_loop :: "pyclass \<Rightarrow> string list \<Rightarrow> pif \<Rightarrow> world \<Rightarrow> pif \<times> world" where
  "build_loop cls [] pif w = (pif, w)"
| "build_loop cls (n # ns) pif w =
     (case map_of (cdict cls) n of
        Some (DBusProp obj) \<Rightarrow>
          build_loop cls ns (pif_store (dbus_interface obj) (dbus_property obj) n pif)
            (log_debug ''Found DBus property %r''
               [LDescr (dbus_interface obj) (dbus_property obj)] w)
      | _ \<Rightarrow> build_loop cls ns pif w)"

definition build_property_iface_map :: "pyclass \<Rightarrow> world \<Rightarrow> pif \<times> world" where
  "build_property_iface_map cls w =
     build_loop cls (dir_cls cls) []
       (log_debug ''Looking for dbus_property instances in %r'' [LCls (cname cls)] w)"

text \<open>
  The class attribute \<^verbatim>\<open>cls._property_iface_map\<close>, read by ordinary attribute lookup
  along the method resolution order. The first class that has the attribute decides: a
  map that \<^verbatim>\<open>_get_property_iface_map\<close> assigned on it (which replaces what its body
  declared), or else what its body declares. The result is \<open>None\<close> for the value
  \<^verbatim>\<open>None\<close>. Every class that has these methods has Object in its method
  resolution order, so a lookup that finds nothing before ends at Object's
  \<^verbatim>\<open>None\<close>.
\<close>

fun class_attr_pim :: "pyclass list \<Rightarrow> world \<Rightarrow> pif option" where
  "class_attr_pim [] w = None"
| "class_attr_pim (c # cs) w =
     (case map_of (pim w) (cname c) of
        Some m \<Rightarrow> Some m
      | None \<Rightarrow>
          (case declared_pim c of
             Some v \<Rightarrow> v
           | None \<Rightarrow> class_attr_pim cs w))"

text \<open>
  \<^verbatim>\<open>_get_property_iface_map\<close>. After the assignment the class has an entry of its
  own, so the final read of \<^verbatim>\<open>cls._property_iface_map\<close> gives the map just built.
\<close>

definition get_property_iface_map :: "pyclass \<Rightarrow> world \<Rightarrow> pif \<times> world" where
  "get_property_iface_map cls w =
     (case class_attr_pim (mro cls) w of
        None \<Rightarrow>
          (let (property_iface_map, w1) = build_property_iface_map cls w;
               w2 = log_debug ''built property_iface_map: %r'' [LPif property_iface_map] w1
           in (property_iface_map,
               w2\<lparr>pim := AList.update (cname cls) property_iface_map (pim w2)\<rparr>))
      | Some m \<Rightarrow> (m, w))"

subsection \<open>class Object: Get, Set, GetAll, PropertiesChanged\<close>

definition PROPERTIES_IFACE :: string where
  "PROPERTIES_IFACE = ''org.freedesktop.DBus.Properties''"

text \<open>\<^verbatim>\<open>'{}'.format(x)\<close> of a property name.\<close>

definition fmt_key :: "pykey \<Rightarrow> string" where
  "fmt_key k = (case k of None \<Rightarrow> ''None'' | Some s \<Rightarrow> s)"

text \<open>
  \<^verbatim>\<open>InterfaceType._reflect_on_property\<close>, the line of the introspection document
  for one descriptor: formatting it reads \<^verbatim>\<open>dbus_access_flag\<close>, whose TypeError
  it lets through.
\<close>

definition reflect_on_property :: "property \<Rightarrow> py_exc + string" where
  "reflect_on_property func =
     (case dbus_access_flag func of
        Inl e \<Rightarrow> Inl e
      | Inr flag \<Rightarrow>
          Inr (''    <property name='' @ [CHR 0x22] @ fmt_key (dbus_property func) @ [CHR 0x22]
               @ '' type='' @ [CHR 0x22] @ signature func @ [CHR 0x22]
               @ '' access='' @ [CHR 0x22] @ flag @ [CHR 0x22] @ ''/>'' @ [CHR 0x0A]))"

text \<open>The four exceptions that \<^verbatim>\<open>Get\<close>, \<^verbatim>\<open>Set\<close> and \<^verbatim>\<open>GetAll\<close> construct.\<close>

definition no_such_interface :: "string \<Rightarrow> py_exc" where
  "no_such_interface interface_name =
     DBusException [PROPERTIES_IFACE, ''No such interface '' @ interface_name]"

definition no_such_property :: "string \<Rightarrow> pykey \<Rightarrow> py_exc" where
  "no_such_property interface_name property_name =
     DBusException [PROPERTIES_IFACE,
       ''No such property '' @ interface_name @ '':'' @ fmt_key property_name]"

definition unable_to_get :: "string \<Rightarrow> pykey \<Rightarrow> string \<Rightarrow> py_exc" where
  "unable_to_get interface_name property_name exc_repr =
     DBusException [PROPERTIES_IFACE,
       ''Unable to get property interface/property '' @ interface_name @ '':''
         @ fmt_key property_name @ '': '' @ exc_repr]"

definition unable_to_set :: "string \<Rightarrow> pykey \<Rightarrow> string \<Rightarrow> py_exc" where
  "unable_to_set interface_name property_name exc_repr =
     DBusException [PROPERTIES_IFACE,
       ''Unable to set property '' @ interface_name @ '':''
         @ fmt_key property_name @ '': '' @ exc_repr]"

definition Get :: "pyclass \<Rightarrow> nat \<Rightarrow> string \<Rightarrow> pykey \<Rightarrow> world \<Rightarrow> pyval result" where
  "Get cls self interface_name property_name w =
     (let w1 = log_debug ''Get(%r, %r)'' [LStr interface_name, LKey property_name] w;
          (property_iface_map, w2) = get_property_iface_map cls w1
      in case map_of property_iface_map interface_name of
           None \<Rightarrow> (Inl (no_such_interface interface_name), w2)
         | Some props \<Rightarrow>
             (case map_of props property_name of
                None \<Rightarrow> (Inl (no_such_property interface_name property_name), w2)
              | Some n \<Rightarrow>
                  (case getattr_obj cls self n w2 of
                     (Inr v, w3) \<Rightarrow> (Inr v, w3)
                   | (Inl (DBusException a), w3) \<Rightarrow> (Inl (DBusException a), w3)
                   | (Inl (OtherException t r), w3) \<Rightarrow>
                       (Inl (unable_to_get interface_name property_name r),
                        log_exception ''runaway exception from Get(%r, %r)''
                          [LStr interface_name, LKey property_name] (OtherException t r) w3)
                   | (Inl (NonException t r), w3) \<Rightarrow> (Inl (NonException t r), w3))))"

definition Set :: "pyclass \<Rightarrow> nat \<Rightarrow> string \<Rightarrow> pykey \<Rightarrow> pyval \<Rightarrow> world \<Rightarrow> pyval result" where
  "Set cls self interface_name property_name v w =
     (let w1 = log_debug ''Set(%r, %r, %r)''
                 [LStr interface_name, LKey property_name, LVal v] w;
          (property_iface_map, w2) = get_property_iface_map cls w1
      in case map_of property_iface_map interface_name of
           None \<Rightarrow> (Inl (no_such_interface interface_name), w2)
         | Some props \<Rightarrow>
             (case map_of props property_name of
                None \<Rightarrow> (Inl (no_such_property interface_name property_name), w2)
              | Some n \<Rightarrow>
                  (case setattr_obj cls self n v w2 of
                     (Inr r, w3) \<Rightarrow> (Inr PyNone, w3)
                   | (Inl (DBusException a), w3) \<Rightarrow> (Inl (DBusException a), w3)
                   | (Inl (OtherException t r), w3) \<Rightarrow>
                       (Inl (unable_to_set interface_name property_name r),
                        log_exception ''runaway exception from Set(%r, %r, %r)''
                          [LStr interface_name, LKey property_name, LVal v]
                          (OtherException t r) w3)
                   | (Inl (NonException t r), w3) \<Rightarrow> (Inl (NonException t r), w3))))"

text \<open>
  The dictionary comprehension of \<^verbatim>\<open>GetAll\<close>: one \<^verbatim>\<open>self.Get\<close> for each property
  name, in the order of the inner dictionary; the first exception ends it.
\<close>

fun GetAll_items ::
  "pyclass \<Rightarrow> nat \<Rightarrow> string \<Rightarrow> pykey list \<Rightarrow> (pykey \<times> pyval) list \<Rightarrow> world
    \<Rightarrow> (pykey \<times> pyval) list result" where
  "GetAll_items cls self interface_name [] acc w = (Inr acc, w)"
| "GetAll_items cls self interface_name (property_name # rest) acc w =
     (case Get cls self interface_name property_name w of
        (Inl e, w') \<Rightarrow> (Inl e, w')
      | (Inr v, w') \<Rightarrow>
          GetAll_items cls self interface_name rest (AList.update property_name v acc) w')"

definition GetAll :: "pyclass \<Rightarrow> nat \<Rightarrow> string \<Rightarrow> world \<Rightarrow> (pykey \<times> pyval) list result" where
  "GetAll cls self interface_name w =
     (let w1 = log_debug ''GetAll(%r)'' [LStr interface_name] w;
          (property_iface_map, w2) = get_property_iface_map cls w1
      in case map_of property_iface_map interface_name of
           None \<Rightarrow> (Inl (no_such_interface interface_name), w2)
         | Some props \<Rightarrow> GetAll_items cls self interface_name (map fst props) [] w2)"

text \<open>
  \<^verbatim>\<open>PropertiesChanged\<close>: the body logs, and the decorator \<^verbatim>\<open>dbus.service.signal\<close>
  around it emits the signal on the bus.
\<close>

definition PropertiesChanged ::
  "nat \<Rightarrow> string \<Rightarrow> (string \<times> pyval) list \<Rightarrow> string list \<Rightarrow> world \<Rightarrow> world" where
  "PropertiesChanged self interface_name changed_properties invalidated_properties w =
     (let w1 = log_debug ''PropertiesChanged(%r, %r, %r)''
                 [LStr interface_name, LChanged changed_properties,
                  LNames invalidated_properties] w
      in w1\<lparr>signals := signals w1 @
           [Signal self interface_name changed_properties invalidated_properties]\<rparr>)"

subsection \<open>Looking a property up in a property-interface map\<close>

text \<open>\<^verbatim>\<open>property_iface_map[interface_name][property_name]\<close>, with None where either
  key is absent.\<close>

definition pif_lookup :: "pif \<Rightarrow> string \<Rightarrow> pykey \<Rightarrow> string option" where
  "pif_lookup m i k = (case map_of m i of None \<Rightarrow> None | Some d \<Rightarrow> map_of d k)"

subsection \<open>The state in which Get, Set and GetAll reach their lookups\<close>

text \<open>
  Each of the three methods logs its call and asks the class for its map before it
  looks at the interface name. These are the states after those two steps; no
  accessor of a descriptor occurs in them.
\<close>

definition Get_world :: "pyclass \<Rightarrow> string \<Rightarrow> pykey \<Rightarrow> world \<Rightarrow> world" where
  "Get_world cls i k w =
     snd (get_property_iface_map cls (log_debug ''Get(%r, %r)'' [LStr i, LKey k] w))"

definition Set_world :: "pyclass \<Rightarrow> string \<Rightarrow> pykey \<Rightarrow> pyval \<Rightarrow> world \<Rightarrow> world" where
  "Set_world cls i k v w =
     snd (get_property_iface_map cls
            (log_debug ''Set(%r, %r, %r)'' [LStr i, LKey k, LVal v] w))"

definition GetAll_world :: "pyclass \<Rightarrow> string \<Rightarrow> world \<Rightarrow> world" where
  "GetAll_world cls i w =
     snd (get_property_iface_map cls (log_debug ''GetAll(%r)'' [LStr i] w))"




subsection \<open>Replacing the accessor bodies of a class\<close>

text \<open>
  \<open>rebind h cls\<close> is \<open>cls\<close> with every getter and setter body \<open>b\<close> of its
  descriptors, and of its ancestors' descriptors, replaced by \<open>h b\<close>. A result that
  is the same for \<open>rebind h cls\<close> and \<open>cls\<close>, whatever \<open>h\<close>, was computed without
  calling an accessor.
\<close>

fun rebind_attr :: "(callable \<Rightarrow> callable) \<Rightarrow> attr \<Rightarrow> attr" where
  "rebind_attr h (DBusProp p) =
     DBusProp (p\<lparr>getf := map_option (\<lambda>f. f\<lparr>func_call := h (func_call f)\<rparr>) (getf p),
                 setf := map_option (\<lambda>f. f\<lparr>func_call := h (func_call f)\<rparr>) (setf p)\<rparr>)"
| "rebind_attr h (Other v) = Other v"

fun rebind :: "(callable \<Rightarrow> callable) \<Rightarrow> pyclass \<Rightarrow> pyclass" where
  "rebind h (PyClass n d decl anc) =
     PyClass n (map (\<lambda>(k, a). (k, rebind_attr h a)) d) decl (map (rebind h) anc)"


subsection \<open>Example classes\<close>

text \<open>
  The classes of the scenarios below, as a Python module would declare them:
  \<^verbatim>\<open>
  class Widget(Object):
      @property('s', 'com.example.Widget')
      def color(self): return self.__dict__.get('_color', 'red')
      @color.setter
      def color(self, value): self.__dict__['_color'] = value
      @property('s', 'com.example.Widget')
      def label(self): return 'widget'
      @property('s', 'com.example.Widget', setter=True)
      def pin(self, value): self.__dict__['_pin'] = value
  class Gadget(Widget):
      @property('i', 'com.example.Gadget')
      def size(self): return 3
  class Sprocket(Widget):
      _property_iface_map = None
      @property('i', 'com.example.Sprocket')
      def teeth(self): return 12
  class Leaky(Object):
      @property('s', 'com.example.Leaky')
      def token(self): raise RuntimeError('db password is hunter2')
      @property('s', 'com.example.Leaky')
      def busy(self): raise DBusException('com.example.Busy')
      @property('s', 'com.example.Leaky', setter=True)
      def knob(self, value): raise DBusException('com.example.Locked')
      @property('s', 'com.example.Leaky', setter=True)
      def dial(self, value): raise ValueError('dial is stuck at 11')
  class Broken(Object):
      ghost = property('s', 'com.example.Broken', 'ghost')
      mute = property('s', 'com.example.Broken', 'mute').getter(Quiet())
  \<close>
  where \<^verbatim>\<open>Quiet\<close> is a class of callable objects that test false
  (\<^verbatim>\<open>__call__\<close> returns 'hush', \<^verbatim>\<open>__bool__\<close> returns False),
  \<^verbatim>\<open>
  class Notifier(Object):
      @property('i', 'com.example.Notifier', setter=True)
      def level(self, value):
          self.__dict__['_level'] = value
          self.PropertiesChanged('com.example.Notifier', {'level': value}, [])
  \<close>
\<close>

definition empty_world :: world where
  "empty_world = \<lparr>pim = [], idicts = [], logged = [], signals = []\<rparr>"

definition arity_error :: py_exc where
  "arity_error = OtherException ''TypeError'' ''TypeError('wrong number of arguments')''"

fun color_get_body :: callable where
  "color_get_body [PyObj i] w =
     (case map_of (inst_dict w i) ''_color'' of
        Some v \<Rightarrow> (Inr v, w)
      | None \<Rightarrow> (Inr (PyStr ''red''), w))"
| "color_get_body args w = (Inl arity_error, w)"

fun color_set_body :: callable where
  "color_set_body [PyObj i, v] w =
     (Inr PyNone,
      w\<lparr>idicts := AList.update i (AList.update ''_color'' v (inst_dict w i)) (idicts w)\<rparr>)"
| "color_set_body args w = (Inl arity_error, w)"

fun label_get_body :: callable where
  "label_get_body [PyObj i] w = (Inr (PyStr ''widget''), w)"
| "label_get_body args w = (Inl arity_error, w)"

fun pin_set_body :: callable where
  "pin_set_body [PyObj i, v] w =
     (Inr PyNone,
      w\<lparr>idicts := AList.update i (AList.update ''_pin'' v (inst_dict w i)) (idicts w)\<rparr>)"
| "pin_set_body args w = (Inl arity_error, w)"

fun size_get_body :: callable where
  "size_get_body [PyObj i] w = (Inr (PyInt 3), w)"
| "size_get_body args w = (Inl arity_error, w)"

definition token_get_body :: callable where
  "token_get_body args w =
     (Inl (OtherException ''RuntimeError'' ''RuntimeError('db password is hunter2')''), w)"

definition busy_get_body :: callable where
  "busy_get_body args w = (Inl (DBusException [''com.example.Busy'']), w)"

definition knob_set_body :: callable where
  "knob_set_body args w = (Inl (DBusException [''com.example.Locked'']), w)"

definition dial_set_body :: callable where
  "dial_set_body args w =
     (Inl (OtherException ''ValueError'' ''ValueError('dial is stuck at 11')''), w)"

definition def_func :: "string \<Rightarrow> callable \<Rightarrow> pyfunc" where
  "def_func n body = \<lparr>func_name = n, func_doc = None, func_truth = True, func_call = body\<rparr>"

definition ex_color :: property where
  "ex_color =
     setter (property_call (property_init ''s'' ''com.example.Widget'' None False)
               (def_func ''color'' color_get_body))
       (def_func ''color'' color_set_body)"

definition ex_label :: property where
  "ex_label = property_call (property_init ''s'' ''com.example.Widget'' None False)
                (def_func ''label'' label_get_body)"

definition ex_pin :: property where
  "ex_pin = property_call (property_init ''s'' ''com.example.Widget'' None True)
              (def_func ''pin'' pin_set_body)"

definition ex_size :: property where
  "ex_size = property_call (property_init ''i'' ''com.example.Gadget'' None False)
               (def_func ''size'' size_get_body)"

definition ex_token :: property where
  "ex_token = property_call (property_init ''s'' ''com.example.Leaky'' None False)
                (def_func ''token'' token_get_body)"

definition ex_busy :: property where
  "ex_busy = property_call (property_init ''s'' ''com.example.Leaky'' None False)
               (def_func ''busy'' busy_get_body)"

definition ex_knob :: property where
  "ex_knob = property_call (property_init ''s'' ''com.example.Leaky'' None True)
               (def_func ''knob'' knob_set_body)"

definition ex_dial :: property where
  "ex_dial = property_call (property_init ''s'' ''com.example.Leaky'' None True)
               (def_func ''dial'' dial_set_body)"

fun teeth_get_body :: callable where
  "teeth_get_body [PyObj i] w = (Inr (PyInt 12), w)"
| "teeth_get_body args w = (Inl arity_error, w)"

definition ex_teeth :: property where
  "ex_teeth = property_call (property_init ''i'' ''com.example.Sprocket'' None False)
                (def_func ''teeth'' teeth_get_body)"

fun quiet_body :: callable where
  "quiet_body [PyObj i] w = (Inr (PyStr ''hush''), w)"
| "quiet_body args w = (Inl arity_error, w)"

definition ex_mute :: property where
  "ex_mute = getter (property_init ''s'' ''com.example.Broken'' (Some ''mute'') False)
               \<lparr>func_name = ''Quiet'', func_doc = None, func_truth = False,
                func_call = quiet_body\<rparr>"

definition ex_ghost :: property where
  "ex_ghost = property_init ''s'' ''com.example.Broken'' (Some ''ghost'') False"

text \<open>Class Object itself: its methods are attributes that are not properties.\<close>

definition ex_Object :: pyclass where
  "ex_Object = PyClass ''Object''
     [(''Get'', Other PyNone), (''Set'', Other PyNone), (''GetAll'', Other PyNone)]
     (Some None) []"

definition ex_Widget :: pyclass where
  "ex_Widget = PyClass ''Widget''
     [(''color'', DBusProp ex_color), (''label'', DBusProp ex_label),
      (''pin'', DBusProp ex_pin)] None [ex_Object]"

definition ex_Gadget :: pyclass where
  "ex_Gadget = PyClass ''Gadget'' [(''size'', DBusProp ex_size)] None
     [ex_Widget, ex_Object]"

definition ex_Sprocket :: pyclass where
  "ex_Sprocket = PyClass ''Sprocket'' [(''teeth'', DBusProp ex_teeth)] (Some None)
     [ex_Widget, ex_Object]"

definition ex_Leaky :: pyclass where
  "ex_Leaky = PyClass ''Leaky''
     [(''token'', DBusProp ex_token), (''busy'', DBusProp ex_busy),
      (''knob'', DBusProp ex_knob), (''dial'', DBusProp ex_dial)] None [ex_Object]"

definition ex_Broken :: pyclass where
  "ex_Broken = PyClass ''Broken'' [(''ghost'', DBusProp ex_ghost), (''mute'', DBusProp ex_mute)] None [ex_Object]"

fun level_set_body :: callable where
  "level_set_body [PyObj i, v] w =
     (Inr PyNone,
      PropertiesChanged i ''com.example.Notifier'' [(''level'', v)] []
        (w\<lparr>idicts := AList.update i (AList.update ''_level'' v (inst_dict w i)) (idicts w)\<rparr>))"
| "level_set_body args w = (Inl arity_error, w)"

definition ex_level :: property where
  "ex_level = property_call (property_init ''i'' ''com.example.Notifier'' None True)
                (def_func ''level'' level_set_body)"

definition ex_Notifier :: pyclass where
  "ex_Notifier = PyClass ''Notifier'' [(''level'', DBusProp ex_level)] None [ex_Object]"


text \<open>The state after the first \<^verbatim>\<open>Widget._get_property_iface_map()\<close> of a process.\<close>

definition world_Widget_built :: world where
  "world_Widget_built = snd (get_property_iface_map ex_Widget empty_world)"

section \<open>Lemmas\<close>

lemmas ex_defs = ex_color_def ex_label_def ex_pin_def ex_size_def ex_teeth_def ex_mute_def ex_token_def ex_busy_def ex_knob_def ex_dial_def ex_ghost_def
  ex_Object_def ex_Widget_def ex_Gadget_def ex_Sprocket_def ex_Leaky_def ex_Broken_def ex_level_def ex_Notifier_def
  world_Widget_built_def def_func_def property_call_def property_init_def setter_def getter_def empty_world_def

subsection \<open>What the build loop stores\<close>

lemma pif_lookup_store:
  "pif_lookup (pif_store i k n m) i' k' =
     (if i' = i \<and> k' = k then Some n else pif_lookup m i' k')"
  by (auto simp: pif_lookup_def pif_store_def Let_def update_conv' split: option.splits)

lemma build_loop_lookup:
  "pif_lookup (fst (build_loop cls ns m w)) i k \<noteq> None \<longleftrightarrow>
     pif_lookup m i k \<noteq> None \<or>
     (\<exists>n\<in>set ns. \<exists>obj. map_of (cdict cls) n = Some (DBusProp obj)
        \<and> dbus_interface obj = i \<and> dbus_property obj = k)"
proof (induction ns arbitrary: m w)
  case Nil
  then show ?case by simp
next
  case (Cons n ns)
  show ?case
  proof (cases "map_of (cdict cls) n")
    case None
    then show ?thesis using Cons.IH by simp
  next
    case (Some a)
    then show ?thesis
    proof (cases a)
      case (DBusProp obj)
      with Some show ?thesis using Cons.IH by (auto simp: pif_lookup_store)
    next
      case (Other v)
      with Some show ?thesis using Cons.IH by simp
    qed
  qed
qed

lemma own_names_in_dir: "map_of (cdict cls) n = Some a \<Longrightarrow> n \<in> set (dir_cls cls)"
  by (auto simp: dir_cls_def mro_def dest: map_of_SomeD intro!: rev_image_eqI)

lemma build_lookup:
  "pif_lookup (fst (build_property_iface_map cls w)) i k \<noteq> None \<longleftrightarrow>
     (\<exists>n obj. map_of (cdict cls) n = Some (DBusProp obj)
        \<and> dbus_interface obj = i \<and> dbus_property obj = k)"
  unfolding build_property_iface_map_def build_loop_lookup
  by (auto simp: pif_lookup_def dest: own_names_in_dir)

text \<open>Building and looking up the map touch the class caches and the log only, and
  the map built does not depend on the state.\<close>

lemma build_loop_frame:
  "pim (snd (build_loop cls ns m w)) = pim w \<and>
   idicts (snd (build_loop cls ns m w)) = idicts w \<and>
   signals (snd (build_loop cls ns m w)) = signals w"
  by (induction cls ns m w rule: build_loop.induct)
     (auto simp: log_debug_def split: option.splits attr.splits)

lemma build_loop_fst: "fst (build_loop cls ns m w) = fst (build_loop cls ns m w')"
  by (induction ns arbitrary: m w w') (auto split: option.splits attr.splits)

lemma build_frame:
  "pim (snd (build_property_iface_map cls w)) = pim w \<and>
   idicts (snd (build_property_iface_map cls w)) = idicts w \<and>
   signals (snd (build_property_iface_map cls w)) = signals w"
  by (simp add: build_property_iface_map_def build_loop_frame log_debug_def)

lemma build_fst: "fst (build_property_iface_map cls w) = fst (build_property_iface_map cls w')"
  unfolding build_property_iface_map_def by (rule build_loop_fst)

lemma class_attr_pim_cong: "pim w = pim w' \<Longrightarrow> class_attr_pim cs w = class_attr_pim cs w'"
  by (induction cs) (auto split: option.splits)

lemma get_map_frame:
  "idicts (snd (get_property_iface_map cls w)) = idicts w \<and>
   signals (snd (get_property_iface_map cls w)) = signals w"
  using build_frame[of cls w]
  by (auto simp: get_property_iface_map_def log_debug_def Let_def
           split: option.splits prod.splits)

lemma get_map_fst_cong:
  "pim w = pim w' \<Longrightarrow>
   fst (get_property_iface_map cls w) = fst (get_property_iface_map cls w')"
  using class_attr_pim_cong[of w w' "mro cls"] build_fst[of cls w w']
  by (auto simp: get_property_iface_map_def Let_def split: option.splits prod.splits)

lemma get_map_log_debug [simp]:
  "fst (get_property_iface_map cls (log_debug f a w)) = fst (get_property_iface_map cls w)"
  by (rule get_map_fst_cong) (simp add: log_debug_def)

lemma get_map_cached:
  "map_of (pim w) (cname cls) = Some m \<Longrightarrow> get_property_iface_map cls w = (m, w)"
  by (simp add: get_property_iface_map_def mro_def)

lemma get_map_caches:
  "class_attr_pim (mro cls) w = None \<Longrightarrow>
   map_of (pim (snd (get_property_iface_map cls w))) (cname cls)
     = Some (fst (get_property_iface_map cls w))"
  by (simp add: get_property_iface_map_def Let_def update_conv' split: prod.splits)


subsection \<open>Get and Set, branch by branch\<close>

lemma Get_no_interface:
  "map_of (fst (get_property_iface_map cls w)) i = None \<Longrightarrow>
   Get cls self i k w = (Inl (no_such_interface i), Get_world cls i k w)"
  by (simp add: Get_def Get_world_def split_def Let_def)

lemma Get_no_property:
  "map_of (fst (get_property_iface_map cls w)) i = Some props \<Longrightarrow> map_of props k = None \<Longrightarrow>
   Get cls self i k w = (Inl (no_such_property i k), Get_world cls i k w)"
  by (simp add: Get_def Get_world_def split_def Let_def)

lemma Get_found:
  "pif_lookup (fst (get_property_iface_map cls w)) i k = Some n \<Longrightarrow>
   Get cls self i k w =
     (case getattr_obj cls self n (Get_world cls i k w) of
        (Inr v, w3) \<Rightarrow> (Inr v, w3)
      | (Inl (DBusException a), w3) \<Rightarrow> (Inl (DBusException a), w3)
      | (Inl (OtherException t r), w3) \<Rightarrow>
          (Inl (unable_to_get i k r),
           log_exception ''runaway exception from Get(%r, %r)'' [LStr i, LKey k]
             (OtherException t r) w3)
      | (Inl (NonException t r), w3) \<Rightarrow> (Inl (NonException t r), w3))"
  by (auto simp: Get_def Get_world_def split_def Let_def pif_lookup_def split: option.splits)

lemma Set_no_interface:
  "map_of (fst (get_property_iface_map cls w)) i = None \<Longrightarrow>
   Set cls self i k v w = (Inl (no_such_interface i), Set_world cls i k v w)"
  by (simp add: Set_def Set_world_def split_def Let_def)

lemma Set_no_property:
  "map_of (fst (get_property_iface_map cls w)) i = Some props \<Longrightarrow> map_of props k = None \<Longrightarrow>
   Set cls self i k v w = (Inl (no_such_property i k), Set_world cls i k v w)"
  by (simp add: Set_def Set_world_def split_def Let_def)

lemma Set_found:
  "pif_lookup (fst (get_property_iface_map cls w)) i k = Some n \<Longrightarrow>
   Set cls self i k v w =
     (case setattr_obj cls self n v (Set_world cls i k v w) of
        (Inr r, w3) \<Rightarrow> (Inr PyNone, w3)
      | (Inl (DBusException a), w3) \<Rightarrow> (Inl (DBusException a), w3)
      | (Inl (OtherException t r), w3) \<Rightarrow>
          (Inl (unable_to_set i k r),
           log_exception ''runaway exception from Set(%r, %r, %r)''
             [LStr i, LKey k, LVal v] (OtherException t r) w3)
      | (Inl (NonException t r), w3) \<Rightarrow> (Inl (NonException t r), w3))"
  by (auto simp: Set_def Set_world_def split_def Let_def pif_lookup_def split: option.splits)

lemma lookup_errors_distinct:
  "no_such_interface i \<noteq> unable_to_get i' k' r"
  "no_such_interface i \<noteq> unable_to_set i' k' r"
  "no_such_property i k \<noteq> unable_to_get i' k' r"
  "no_such_property i k \<noteq> unable_to_set i' k' r"
  "no_such_interface i \<noteq> no_such_property i' k'"
  by (simp_all add: no_such_interface_def no_such_property_def unable_to_get_def
        unable_to_set_def)

lemma Get_world_frame:
  "idicts (Get_world cls i k w) = idicts w \<and> signals (Get_world cls i k w) = signals w"
  by (simp add: Get_world_def get_map_frame log_debug_def)

lemma Set_world_frame:
  "idicts (Set_world cls i k v w) = idicts w \<and> signals (Set_world cls i k v w) = signals w"
  by (simp add: Set_world_def get_map_frame log_debug_def)


subsection \<open>The map of a class does not depend on its accessor bodies\<close>

lemma rebind_sel:
  "cname (rebind h cls) = cname cls"
  "map fst (cdict (rebind h cls)) = map fst (cdict cls)"
  "ancestors (rebind h cls) = map (rebind h) (ancestors cls)"
  "declared_pim (rebind h cls) = declared_pim cls"
  "map_of (cdict (rebind h cls)) n' = map_option (rebind_attr h) (map_of (cdict cls) n')"
proof -
  obtain n d decl anc where c: "cls = PyClass n d decl anc" by (cases cls)
  show "cname (rebind h cls) = cname cls" by (simp add: c)
  show "map fst (cdict (rebind h cls)) = map fst (cdict cls)" by (simp add: c split_def)
  show "ancestors (rebind h cls) = map (rebind h) (ancestors cls)" by (simp add: c)
  show "declared_pim (rebind h cls) = declared_pim cls" by (simp add: c)
  have "map_of (map (\<lambda>(k, a). (k, rebind_attr h a)) d) = map_option (rebind_attr h) \<circ> map_of d"
    by (rule map_of_map)
  then show "map_of (cdict (rebind h cls)) n' = map_option (rebind_attr h) (map_of (cdict cls) n')"
    for n' by (simp add: c)
qed

lemma rebind_dir: "dir_cls (rebind h cls) = dir_cls cls"
  by (simp add: dir_cls_def mro_def rebind_sel comp_def)

lemma rebind_class_attr_pim:
  "class_attr_pim (map (rebind h) cs) w = class_attr_pim cs w"
  by (induction cs) (simp_all add: rebind_sel split: option.splits)

lemma rebind_build_loop: "build_loop (rebind h cls) ns m w = build_loop cls ns m w"
proof (induction ns arbitrary: m w)
  case Nil
  show ?case by simp
next
  case (Cons n ns)
  show ?case
  proof (cases "map_of (cdict cls) n")
    case None
    then show ?thesis by (simp add: rebind_sel Cons.IH)
  next
    case (Some a)
    then show ?thesis by (cases a) (simp_all add: rebind_sel Cons.IH)
  qed
qed

lemma rebind_get_map: "get_property_iface_map (rebind h cls) w = get_property_iface_map cls w"
proof -
  have "class_attr_pim (mro (rebind h cls)) w = class_attr_pim (mro cls) w"
    using rebind_class_attr_pim[of h "mro cls" w] by (simp add: mro_def rebind_sel)
  moreover have "build_property_iface_map (rebind h cls) w = build_property_iface_map cls w"
    by (simp add: build_property_iface_map_def rebind_dir rebind_build_loop rebind_sel)
  ultimately show ?thesis
    by (simp add: get_property_iface_map_def rebind_sel split: option.splits)
qed


lemma rebind_lookup_failure:
  assumes "pif_lookup (fst (get_property_iface_map cls w)) i k = None"
  shows "Get (rebind h cls) self i k w = Get cls self i k w"
    and "Set (rebind h cls) self i k v w = Set cls self i k v w"
proof -
  have w: "Get_world (rebind h cls) i k w = Get_world cls i k w"
    "Set_world (rebind h cls) i k v w = Set_world cls i k v w"
    by (simp_all add: Get_world_def Set_world_def rebind_get_map)
  show "Get (rebind h cls) self i k w = Get cls self i k w"
  proof (cases "map_of (fst (get_property_iface_map cls w)) i")
    case None
    then show ?thesis
      using Get_no_interface[of cls w i self k] Get_no_interface[of "rebind h cls" w i self k]
      by (simp add: rebind_get_map w)
  next
    case (Some props)
    with assms have "map_of props k = None" by (simp add: pif_lookup_def)
    with Some show ?thesis
      using Get_no_property[of cls w i props k self]
        Get_no_property[of "rebind h cls" w i props k self]
      by (simp add: rebind_get_map w)
  qed
  show "Set (rebind h cls) self i k v w = Set cls self i k v w"
  proof (cases "map_of (fst (get_property_iface_map cls w)) i")
    case None
    then show ?thesis
      using Set_no_interface[of cls w i self k v]
        Set_no_interface[of "rebind h cls" w i self k v]
      by (simp add: rebind_get_map w)
  next
    case (Some props)
    with assms have "map_of props k = None" by (simp add: pif_lookup_def)
    with Some show ?thesis
      using Set_no_property[of cls w i props k self v]
        Set_no_property[of "rebind h cls" w i props k self v]
      by (simp add: rebind_get_map w)
  qed
qed

subsection \<open>The example classes, evaluated\<close>

lemmas run_defs = get_property_iface_map_def build_property_iface_map_def dir_cls_def mro_def
  log_debug_def log_exception_def pif_store_def pif_lookup_def inst_dict_def Let_def

lemma empty_world_sel [simp]:
  "pim empty_world = []" "idicts empty_world = []" "logged empty_world = []"
  "signals empty_world = []"
  by (simp_all add: empty_world_def)

lemma Widget_index:
  "fst (get_property_iface_map ex_Widget empty_world) =
     [(''com.example.Widget'',
       [(Some ''color'', ''color''), (Some ''label'', ''label''), (Some ''pin'', ''pin'')])]"
  by (simp add: ex_defs run_defs)

lemma Gadget_index:
  "fst (get_property_iface_map ex_Gadget empty_world) =
     [(''com.example.Gadget'', [(Some ''size'', ''size'')])]"
  by (simp add: ex_defs run_defs)

lemma Leaky_index:
  "fst (get_property_iface_map ex_Leaky empty_world) =
     [(''com.example.Leaky'',
       [(Some ''busy'', ''busy''), (Some ''dial'', ''dial''), (Some ''knob'', ''knob''),
        (Some ''token'', ''token'')])]"
  by (simp add: ex_defs run_defs)

section \<open>Properties of the code\<close>

subsection \<open>C6: a descriptor with one accessor\<close>

text \<open>
  C6. A descriptor with a getter and no setter reads by calling the getter on the
  instance (so it returns what the getter returns) and refuses a write with
  "property is not writable"; a descriptor with a setter and no getter writes by calling
  the setter (returning None when the setter returns) and refuses a read with
  "property is not readable".
\<close>

theorem descriptor_single_accessor:
  "(getf p = Some g \<and> setf p = None \<longrightarrow>
      read p inst w = func_call g [PyObj inst] w \<and>
      property_get p (Some inst) w =
        (case func_call g [PyObj inst] w of
           (Inl e, w') \<Rightarrow> (Inl e, w') | (Inr r, w') \<Rightarrow> (Inr (Inr r), w')) \<and>
      property_set p inst v w = (Inl (DBusException [''property is not writable'']), w))
   \<and> (getf p = None \<and> setf p = Some s \<longrightarrow>
      property_set p inst v w =
        (case func_call s [PyObj inst, v] w of
           (Inl e, w') \<Rightarrow> (Inl e, w') | (Inr r, w') \<Rightarrow> (Inr PyNone, w')) \<and>
      read p inst w = (Inl (DBusException [''property is not readable'']), w) \<and>
      property_get p (Some inst) w = (Inl (DBusException [''property is not readable'']), w))"
  by (simp add: read_def property_get_def property_set_def)

text \<open>The read-only \<^verbatim>\<open>label\<close> and the write-only \<^verbatim>\<open>pin\<close> of class Widget.\<close>

theorem descriptor_single_accessor_witness:
  "getf ex_label = Some (def_func ''label'' label_get_body) \<and> setf ex_label = None
   \<and> read ex_label 0 empty_world = (Inr (PyStr ''widget''), empty_world)
   \<and> property_set ex_label 0 (PyStr ''x'') empty_world
       = (Inl (DBusException [''property is not writable'']), empty_world)
   \<and> getf ex_pin = None \<and> setf ex_pin = Some (def_func ''pin'' pin_set_body)
   \<and> property_set ex_pin 0 (PyInt 4) empty_world
       = (Inr PyNone, empty_world\<lparr>idicts := [(0, [(''_pin'', PyInt 4)])]\<rparr>)
   \<and> read ex_pin 0 empty_world
       = (Inl (DBusException [''property is not readable'']), empty_world)"
  using descriptor_single_accessor
          [of ex_label "def_func ''label'' label_get_body" 0 empty_world "PyStr ''x''"]
        descriptor_single_accessor
          [of ex_pin _ 0 empty_world "PyInt 4" "def_func ''pin'' pin_set_body"]
  by (simp add: ex_defs Let_def inst_dict_def)

subsection \<open>C7: the access flag, and what the build does with an unbound descriptor\<close>

text \<open>
  C7 as stated fails in two places. \<^verbatim>\<open>_build_property_iface_map\<close> never reads
  \<^verbatim>\<open>dbus_access_flag\<close>: for class Broken, whose descriptor \<^verbatim>\<open>ghost\<close> has neither
  accessor, the flag raises TypeError, and the build returns a map that holds the
  descriptor and logs debug records only. And the flag goes by the truth value of the
  accessors, not by their being bound: \<^verbatim>\<open>mute\<close> has a getter bound (reading it
  calls the getter) and no setter, the getter tests false, and the flag raises
  TypeError where the claim says "read".
\<close>

theorem build_tolerates_unbound_descriptor:
  "getf ex_ghost = None \<and> setf ex_ghost = None
   \<and> dbus_access_flag ex_ghost =
        Inl (OtherException ''TypeError''
               ''TypeError('property provides neither readable nor writable')'')
   \<and> build_property_iface_map ex_Broken empty_world =
       ([(''com.example.Broken'', [(Some ''ghost'', ''ghost''), (Some ''mute'', ''mute'')])],
        empty_world\<lparr>logged :=
          [Debug ''Looking for dbus_property instances in %r'' [LCls ''Broken''],
           Debug ''Found DBus property %r'' [LDescr ''com.example.Broken'' (Some ''ghost'')],
           Debug ''Found DBus property %r'' [LDescr ''com.example.Broken'' (Some ''mute'')]]\<rparr>)
   \<and> getf ex_mute \<noteq> None \<and> setf ex_mute = None
   \<and> read ex_mute 0 empty_world = (Inr (PyStr ''hush''), empty_world)
   \<and> dbus_access_flag ex_mute =
        Inl (OtherException ''TypeError''
               ''TypeError('property provides neither readable nor writable')'')"
  by (simp add: ex_defs dbus_access_flag_def truthy_def read_def
        build_property_iface_map_def dir_cls_def mro_def log_debug_def pif_store_def)

text \<open>
  C7, amended. For accessors that test true, as every function object does, the access
  flag is "read" with only a getter bound, "write" with only a setter bound and
  "readwrite" with both; with neither accessor bound it raises TypeError. The build
  does not read the flag: every descriptor of the class's own dictionary is in the map
  built, whatever its accessors. The TypeError of a descriptor with neither accessor
  surfaces where the flag is read, as \<^verbatim>\<open>_reflect_on_property\<close> does for the
  introspection document.
\<close>

theorem access_flag_and_build:
  "(getf p = Some g \<and> func_truth g \<and> setf p = None \<longrightarrow> dbus_access_flag p = Inr ''read'')
   \<and> (getf p = None \<and> setf p = Some s \<and> func_truth s \<longrightarrow> dbus_access_flag p = Inr ''write'')
   \<and> (getf p = Some g \<and> func_truth g \<and> setf p = Some s \<and> func_truth s \<longrightarrow>
        dbus_access_flag p = Inr ''readwrite'')
   \<and> (getf p = None \<and> setf p = None \<longrightarrow>
        dbus_access_flag p =
          Inl (OtherException ''TypeError''
                 ''TypeError('property provides neither readable nor writable')''))
   \<and> (map_of (cdict cls) n = Some (DBusProp p) \<longrightarrow>
        pif_lookup (fst (build_property_iface_map cls w))
          (dbus_interface p) (dbus_property p) \<noteq> None)
   \<and> (getf p = None \<and> setf p = None \<longrightarrow>
        reflect_on_property p =
          Inl (OtherException ''TypeError''
                 ''TypeError('property provides neither readable nor writable')''))"
  using build_lookup[of cls w "dbus_interface p" "dbus_property p"]
  by (auto simp: dbus_access_flag_def truthy_def reflect_on_property_def)

theorem access_flag_and_build_witness:
  "getf ex_color = Some (def_func ''color'' color_get_body)
   \<and> setf ex_color = Some (def_func ''color'' color_set_body)
   \<and> func_truth (def_func ''color'' color_get_body)
   \<and> func_truth (def_func ''color'' color_set_body)
   \<and> dbus_access_flag ex_color = Inr ''readwrite''
   \<and> getf ex_label = Some (def_func ''label'' label_get_body) \<and> setf ex_label = None
   \<and> dbus_access_flag ex_label = Inr ''read''
   \<and> getf ex_pin = None \<and> setf ex_pin = Some (def_func ''pin'' pin_set_body)
   \<and> dbus_access_flag ex_pin = Inr ''write''
   \<and> getf ex_ghost = None \<and> setf ex_ghost = None
   \<and> dbus_access_flag ex_ghost =
        Inl (OtherException ''TypeError''
               ''TypeError('property provides neither readable nor writable')'')
   \<and> map_of (cdict ex_Broken) ''ghost'' = Some (DBusProp ex_ghost)
   \<and> pif_lookup (fst (build_property_iface_map ex_Broken empty_world))
        ''com.example.Broken'' (Some ''ghost'') \<noteq> None
   \<and> reflect_on_property ex_ghost =
        Inl (OtherException ''TypeError''
               ''TypeError('property provides neither readable nor writable')'')"
  using access_flag_and_build[of ex_color "def_func ''color'' color_get_body"
          "def_func ''color'' color_set_body"]
        access_flag_and_build[of ex_label "def_func ''label'' label_get_body"]
        access_flag_and_build[of ex_pin _ "def_func ''pin'' pin_set_body"]
        access_flag_and_build[of ex_ghost _ _ ex_Broken "''ghost''" empty_world]
  by (simp add: ex_defs Let_def)

subsection \<open>C2: unknown interface, unknown property\<close>

text \<open>
  C2. With \<open>m\<close> the map that the object's class answers in the state of the call: when
  the interface name is not a key of \<open>m\<close>, Get and Set raise
  DBusException(PROPERTIES_IFACE, "No such interface ..."); when it is and the property
  name is not a key under it, they raise DBusException(PROPERTIES_IFACE,
  "No such property ..."). Neither exception is one of the "Unable to get" or
  "Unable to set" exceptions that wrap an accessor's failure. No accessor runs: the
  state left is the state after the call was logged and the map looked up (instance
  dictionaries and emitted signals as before), and the whole result is the same when
  every accessor body of the class is replaced by another.
\<close>

theorem lookup_failures:
  "(map_of (fst (get_property_iface_map cls w)) i = None \<longrightarrow>
      Get cls self i k w = (Inl (no_such_interface i), Get_world cls i k w) \<and>
      Set cls self i k v w = (Inl (no_such_interface i), Set_world cls i k v w))
   \<and> (map_of (fst (get_property_iface_map cls w)) i = Some props \<and> map_of props k = None \<longrightarrow>
      Get cls self i k w = (Inl (no_such_property i k), Get_world cls i k w) \<and>
      Set cls self i k v w = (Inl (no_such_property i k), Set_world cls i k v w))
   \<and> (pif_lookup (fst (get_property_iface_map cls w)) i k = None \<longrightarrow>
      Get (rebind h cls) self i k w = Get cls self i k w \<and>
      Set (rebind h cls) self i k v w = Set cls self i k v w)
   \<and> no_such_interface i \<noteq> unable_to_get i' k' r
   \<and> no_such_interface i \<noteq> unable_to_set i' k' r
   \<and> no_such_property i k \<noteq> unable_to_get i' k' r
   \<and> no_such_property i k \<noteq> unable_to_set i' k' r
   \<and> idicts (Get_world cls i k w) = idicts w \<and> signals (Get_world cls i k w) = signals w
   \<and> idicts (Set_world cls i k v w) = idicts w \<and> signals (Set_world cls i k v w) = signals w"
  using Get_no_interface[of cls w i self k] Set_no_interface[of cls w i self k v]
    Get_no_property[of cls w i props k self] Set_no_property[of cls w i props k self v]
    rebind_lookup_failure[of cls w i k h self]
  by (simp add: lookup_errors_distinct Get_world_frame Set_world_frame)

text \<open>On a Widget: an interface that is not there, and a property that is not there
  (with every accessor body replaced by one that raises).\<close>

theorem lookup_failures_witness:
  "fst (Get ex_Widget 0 ''com.example.Other'' (Some ''color'') empty_world)
     = Inl (DBusException [''org.freedesktop.DBus.Properties'',
                            ''No such interface com.example.Other''])
   \<and> fst (Set ex_Widget 0 ''com.example.Other'' (Some ''color'') (PyStr ''blue'') empty_world)
     = Inl (DBusException [''org.freedesktop.DBus.Properties'',
                            ''No such interface com.example.Other''])
   \<and> fst (Get ex_Widget 0 ''com.example.Widget'' (Some ''size'') empty_world)
     = Inl (DBusException [''org.freedesktop.DBus.Properties'',
                            ''No such property com.example.Widget:size''])
   \<and> fst (Set ex_Widget 0 ''com.example.Widget'' (Some ''size'') (PyInt 1) empty_world)
     = Inl (DBusException [''org.freedesktop.DBus.Properties'',
                            ''No such property com.example.Widget:size''])
   \<and> idicts (snd (Set ex_Widget 0 ''com.example.Widget'' (Some ''size'') (PyInt 1) empty_world)) = []
   \<and> Get (rebind (\<lambda>b. token_get_body) ex_Widget) 0 ''com.example.Widget'' (Some ''size'')
         empty_world
       = Get ex_Widget 0 ''com.example.Widget'' (Some ''size'') empty_world"
  using lookup_failures[where cls = ex_Widget and w = empty_world and i = "''com.example.Other''"
          and k = "Some ''color''" and self = 0 and v = "PyStr ''blue''"]
        lookup_failures[where cls = ex_Widget and w = empty_world and i = "''com.example.Widget''"
          and k = "Some ''size''" and self = 0 and v = "PyInt 1"
          and h = "\<lambda>b. token_get_body"
          and props = "[(Some ''color'', ''color''), (Some ''label'', ''label''), (Some ''pin'', ''pin'')]"]
  by (simp add: Widget_index no_such_interface_def no_such_property_def PROPERTIES_IFACE_def
        fmt_key_def pif_lookup_def)

subsection \<open>C4 and C10: exceptions raised by an accessor\<close>

lemma getattr_descriptor:
  "find_attr (mro cls) n = Some (DBusProp p) \<Longrightarrow> getf p = Some g \<Longrightarrow>
   getattr_obj cls self n w = func_call g [PyObj self] w"
  by (simp add: getattr_obj_def read_def)

lemma setattr_descriptor:
  "find_attr (mro cls) n = Some (DBusProp p) \<Longrightarrow> setf p = Some s \<Longrightarrow>
   setattr_obj cls self n v w =
     (case func_call s [PyObj self, v] w of
        (Inl e, w') \<Rightarrow> (Inl e, w') | (Inr r, w') \<Rightarrow> (Inr PyNone, w'))"
  by (simp add: setattr_obj_def property_set_def)

lemmas err_defs = no_such_interface_def no_such_property_def unable_to_get_def unable_to_set_def
  PROPERTIES_IFACE_def fmt_key_def

lemma Leaky_attrs:
  "find_attr (mro ex_Leaky) ''token'' = Some (DBusProp ex_token)"
  "find_attr (mro ex_Leaky) ''busy'' = Some (DBusProp ex_busy)"
  "find_attr (mro ex_Leaky) ''knob'' = Some (DBusProp ex_knob)"
  "find_attr (mro ex_Leaky) ''dial'' = Some (DBusProp ex_dial)"
  by (simp_all add: ex_Leaky_def mro_def)

lemma Leaky_accessors:
  "getf ex_token = Some (def_func ''token'' token_get_body)"
  "getf ex_busy = Some (def_func ''busy'' busy_get_body)"
  "setf ex_knob = Some (def_func ''knob'' knob_set_body)"
  "setf ex_dial = Some (def_func ''dial'' dial_set_body)"
  by (simp_all add: ex_defs)


text \<open>
  C4 as stated fails: the message that Get and Set raise is not generic. It ends with
  the \<^verbatim>\<open>repr\<close> of the accessor's exception, type name and arguments verbatim. The
  getter of \<^verbatim>\<open>Leaky.token\<close> raises RuntimeError('db password is hunter2') and the
  setter of \<^verbatim>\<open>Leaky.dial\<close> raises ValueError('dial is stuck at 11').
\<close>

theorem accessor_failure_exposed:
  "fst (Get ex_Leaky 0 ''com.example.Leaky'' (Some ''token'') empty_world) =
     Inl (DBusException
       [''org.freedesktop.DBus.Properties'',
        ''Unable to get property interface/property com.example.Leaky:token: RuntimeError('db password is hunter2')''])
   \<and> fst (Set ex_Leaky 0 ''com.example.Leaky'' (Some ''dial'') (PyInt 5) empty_world) =
     Inl (DBusException
       [''org.freedesktop.DBus.Properties'',
        ''Unable to set property com.example.Leaky:dial: ValueError('dial is stuck at 11')''])"
  by (simp add: Get_found[where n = "''token''"] Set_found[where n = "''dial''"]
        Leaky_index pif_lookup_def getattr_descriptor[OF Leaky_attrs(1) Leaky_accessors(1)]
        setattr_descriptor[OF Leaky_attrs(4) Leaky_accessors(4)]
        def_func_def token_get_body_def dial_set_body_def err_defs)

text \<open>
  C4, amended. When the property name resolves to a descriptor of the class and its
  getter (for Get) or setter (for Set) raises an Exception that is not a DBusException,
  Get and Set log it with \<^verbatim>\<open>logger.exception\<close> and raise
  DBusException(PROPERTIES_IFACE, message), where the message names the interface and
  the property and ends with the \<^verbatim>\<open>repr\<close> of the original exception.
\<close>

theorem runaway_exception_wrapped:
  assumes "pif_lookup (fst (get_property_iface_map cls w)) i k = Some n"
      and "find_attr (mro cls) n = Some (DBusProp p)"
  shows "(getf p = Some g \<and>
          func_call g [PyObj self] (Get_world cls i k w) = (Inl (OtherException t r), w') \<longrightarrow>
            Get cls self i k w =
              (Inl (unable_to_get i k r),
               log_exception ''runaway exception from Get(%r, %r)'' [LStr i, LKey k]
                 (OtherException t r) w'))
       \<and> (setf p = Some s \<and>
          func_call s [PyObj self, v] (Set_world cls i k v w) = (Inl (OtherException t r), w') \<longrightarrow>
            Set cls self i k v w =
              (Inl (unable_to_set i k r),
               log_exception ''runaway exception from Set(%r, %r, %r)''
                 [LStr i, LKey k, LVal v] (OtherException t r) w'))"
  using assms
  by (simp add: Get_found Set_found getattr_descriptor setattr_descriptor)

theorem runaway_exception_wrapped_witness:
  "pif_lookup (fst (get_property_iface_map ex_Leaky empty_world)) ''com.example.Leaky''
      (Some ''token'') = Some ''token''
   \<and> find_attr (mro ex_Leaky) ''token'' = Some (DBusProp ex_token)
   \<and> Get ex_Leaky 0 ''com.example.Leaky'' (Some ''token'') empty_world =
       (Inl (unable_to_get ''com.example.Leaky'' (Some ''token'')
               ''RuntimeError('db password is hunter2')''),
        log_exception ''runaway exception from Get(%r, %r)''
          [LStr ''com.example.Leaky'', LKey (Some ''token'')]
          (OtherException ''RuntimeError'' ''RuntimeError('db password is hunter2')'')
          (Get_world ex_Leaky ''com.example.Leaky'' (Some ''token'') empty_world))
   \<and> pif_lookup (fst (get_property_iface_map ex_Leaky empty_world)) ''com.example.Leaky''
      (Some ''dial'') = Some ''dial''
   \<and> find_attr (mro ex_Leaky) ''dial'' = Some (DBusProp ex_dial)
   \<and> Set ex_Leaky 0 ''com.example.Leaky'' (Some ''dial'') (PyInt 5) empty_world =
       (Inl (unable_to_set ''com.example.Leaky'' (Some ''dial'')
               ''ValueError('dial is stuck at 11')''),
        log_exception ''runaway exception from Set(%r, %r, %r)''
          [LStr ''com.example.Leaky'', LKey (Some ''dial''), LVal (PyInt 5)]
          (OtherException ''ValueError'' ''ValueError('dial is stuck at 11')'')
          (Set_world ex_Leaky ''com.example.Leaky'' (Some ''dial'') (PyInt 5) empty_world))"
proof -
  have l1: "pif_lookup (fst (get_property_iface_map ex_Leaky empty_world))
              ''com.example.Leaky'' (Some ''token'') = Some ''token''"
    by (simp add: Leaky_index pif_lookup_def)
  have l2: "pif_lookup (fst (get_property_iface_map ex_Leaky empty_world))
              ''com.example.Leaky'' (Some ''dial'') = Some ''dial''"
    by (simp add: Leaky_index pif_lookup_def)
  show ?thesis
    using runaway_exception_wrapped[OF l1 Leaky_attrs(1),
            where g = "def_func ''token'' token_get_body" and self = 0
              and t = "''RuntimeError''" and r = "''RuntimeError('db password is hunter2')''"
              and w' = "Get_world ex_Leaky ''com.example.Leaky'' (Some ''token'') empty_world"]
          runaway_exception_wrapped[OF l2 Leaky_attrs(4),
            where s = "def_func ''dial'' dial_set_body" and self = 0 and v = "PyInt 5"
              and t = "''ValueError''" and r = "''ValueError('dial is stuck at 11')''"
              and w' = "Set_world ex_Leaky ''com.example.Leaky'' (Some ''dial'') (PyInt 5) empty_world"]
    by (simp add: l1 l2 Leaky_attrs Leaky_accessors def_func_def token_get_body_def
          dial_set_body_def)
qed


text \<open>
  C10. A DBusException raised by the getter or the setter of the descriptor leaves Get
  and Set as it is, with the state the accessor left (nothing is logged); and whenever
  Get or Set answer an accessor's exception with anything else than that exception and
  that state, the exception was an Exception outside DBusException.
\<close>

theorem dbus_exception_passes:
  assumes "pif_lookup (fst (get_property_iface_map cls w)) i k = Some n"
      and "find_attr (mro cls) n = Some (DBusProp p)"
  shows "(getf p = Some g \<and>
          func_call g [PyObj self] (Get_world cls i k w) = (Inl (DBusException a), w') \<longrightarrow>
            Get cls self i k w = (Inl (DBusException a), w'))
       \<and> (setf p = Some s \<and>
          func_call s [PyObj self, v] (Set_world cls i k v w) = (Inl (DBusException a), w') \<longrightarrow>
            Set cls self i k v w = (Inl (DBusException a), w'))
       \<and> (getf p = Some g \<and>
          func_call g [PyObj self] (Get_world cls i k w) = (Inl e, w') \<and>
          Get cls self i k w \<noteq> (Inl e, w') \<longrightarrow> (\<exists>t r. e = OtherException t r))
       \<and> (setf p = Some s \<and>
          func_call s [PyObj self, v] (Set_world cls i k v w) = (Inl e, w') \<and>
          Set cls self i k v w \<noteq> (Inl e, w') \<longrightarrow> (\<exists>t r. e = OtherException t r))"
  using assms
  by (cases e) (simp_all add: Get_found Set_found getattr_descriptor setattr_descriptor)

theorem dbus_exception_passes_witness:
  "pif_lookup (fst (get_property_iface_map ex_Leaky empty_world)) ''com.example.Leaky''
      (Some ''busy'') = Some ''busy''
   \<and> find_attr (mro ex_Leaky) ''busy'' = Some (DBusProp ex_busy)
   \<and> Get ex_Leaky 0 ''com.example.Leaky'' (Some ''busy'') empty_world =
       (Inl (DBusException [''com.example.Busy'']),
        Get_world ex_Leaky ''com.example.Leaky'' (Some ''busy'') empty_world)
   \<and> pif_lookup (fst (get_property_iface_map ex_Leaky empty_world)) ''com.example.Leaky''
      (Some ''knob'') = Some ''knob''
   \<and> find_attr (mro ex_Leaky) ''knob'' = Some (DBusProp ex_knob)
   \<and> Set ex_Leaky 0 ''com.example.Leaky'' (Some ''knob'') (PyInt 5) empty_world =
       (Inl (DBusException [''com.example.Locked'']),
        Set_world ex_Leaky ''com.example.Leaky'' (Some ''knob'') (PyInt 5) empty_world)"
proof -
  have l1: "pif_lookup (fst (get_property_iface_map ex_Leaky empty_world))
              ''com.example.Leaky'' (Some ''busy'') = Some ''busy''"
    by (simp add: Leaky_index pif_lookup_def)
  have l2: "pif_lookup (fst (get_property_iface_map ex_Leaky empty_world))
              ''com.example.Leaky'' (Some ''knob'') = Some ''knob''"
    by (simp add: Leaky_index pif_lookup_def)
  show ?thesis
    using dbus_exception_passes[OF l1 Leaky_attrs(2),
            where g = "def_func ''busy'' busy_get_body" and self = 0
              and a = "[''com.example.Busy'']"
              and w' = "Get_world ex_Leaky ''com.example.Leaky'' (Some ''busy'') empty_world"]
          dbus_exception_passes[OF l2 Leaky_attrs(3),
            where s = "def_func ''knob'' knob_set_body" and self = 0 and v = "PyInt 5"
              and a = "[''com.example.Locked'']"
              and w' = "Set_world ex_Leaky ''com.example.Leaky'' (Some ''knob'') (PyInt 5) empty_world"]
    by (simp add: l1 l2 Leaky_attrs Leaky_accessors def_func_def busy_get_body_def
          knob_set_body_def)
qed


subsection \<open>C8: Set and the PropertiesChanged signal\<close>

lemma Widget_attrs:
  "find_attr (mro ex_Widget) ''color'' = Some (DBusProp ex_color)"
  "find_attr (mro ex_Widget) ''label'' = Some (DBusProp ex_label)"
  "find_attr (mro ex_Widget) ''pin'' = Some (DBusProp ex_pin)"
  by (simp_all add: ex_Widget_def mro_def)

lemma Notifier_index:
  "fst (get_property_iface_map ex_Notifier empty_world) =
     [(''com.example.Notifier'', [(Some ''level'', ''level'')])]"
  by (simp add: ex_defs run_defs)

lemma Notifier_attrs:
  "find_attr (mro ex_Notifier) ''level'' = Some (DBusProp ex_level)"
  by (simp_all add: ex_Notifier_def mro_def)


text \<open>
  C8. Set emits nothing itself: the signals on the bus after a Set are those before it
  when the lookup fails, when the name resolves to no descriptor, or when the
  descriptor has no setter, and otherwise those that the one call of the setter left.
\<close>

theorem Set_signals:
  "signals (snd (Set cls self i k v w)) =
     (case pif_lookup (fst (get_property_iface_map cls w)) i k of
        None \<Rightarrow> signals w
      | Some n \<Rightarrow>
          (case find_attr (mro cls) n of
             Some (DBusProp p) \<Rightarrow>
               (case setf p of
                  None \<Rightarrow> signals w
                | Some f \<Rightarrow> signals (snd (func_call f [PyObj self, v] (Set_world cls i k v w))))
           | Some (Other x) \<Rightarrow> signals w
           | None \<Rightarrow> signals w))"
proof (cases "pif_lookup (fst (get_property_iface_map cls w)) i k")
  case None
  then show ?thesis
    using Set_world_frame[of cls i k v w]
    by (auto simp: Set_def Set_world_def split_def Let_def pif_lookup_def split: option.splits)
next
  case (Some n)
  have fr: "signals (Set_world cls i k v w) = signals w"
    by (simp add: Set_world_frame)
  show ?thesis
  proof (cases "find_attr (mro cls) n")
    case None
    with Some fr show ?thesis by (simp add: Set_found setattr_obj_def)
  next
    case (Some a)
    note fa = this
    show ?thesis
    proof (cases a)
      case (Other x)
      with fa \<open>pif_lookup _ i k = Some n\<close> fr show ?thesis
        by (simp add: Set_found setattr_obj_def)
    next
      case (DBusProp p)
      show ?thesis
      proof (cases "setf p")
        case None
        with DBusProp fa \<open>pif_lookup _ i k = Some n\<close> fr show ?thesis
          by (simp add: Set_found setattr_obj_def property_set_def)
      next
        case (Some f)
        obtain res w' where c: "func_call f [PyObj self, v] (Set_world cls i k v w) = (res, w')"
          by (cases "func_call f [PyObj self, v] (Set_world cls i k v w)")
        from Some DBusProp fa \<open>pif_lookup _ i k = Some n\<close> c show ?thesis
          by (cases res; cases "projl res")
             (simp_all add: Set_found setattr_obj_def property_set_def log_exception_def)
      qed
    qed
  qed
qed

text \<open>Setting \<^verbatim>\<open>Widget.color\<close>, whose setter stores the value, the read-only
  \<^verbatim>\<open>Widget.label\<close> and a missing interface emit nothing; setting
  \<^verbatim>\<open>Notifier.level\<close>, whose setter calls PropertiesChanged once, emits that one
  signal.\<close>

theorem Set_signals_witness:
  "signals (snd (Set ex_Widget 0 ''com.example.Widget'' (Some ''color'') (PyStr ''blue'')
                   empty_world)) = []
   \<and> signals (snd (Set ex_Widget 0 ''com.example.Widget'' (Some ''label'') (PyStr ''blue'')
                   empty_world)) = []
   \<and> signals (snd (Set ex_Widget 0 ''com.example.Other'' (Some ''color'') (PyStr ''blue'')
                   empty_world)) = []
   \<and> signals (snd (Set ex_Notifier 0 ''com.example.Notifier'' (Some ''level'') (PyInt 2)
                   empty_world))
       = [Signal 0 ''com.example.Notifier'' [(''level'', PyInt 2)] []]"
  using Set_signals[of ex_Widget 0 "''com.example.Widget''" "Some ''color''" "PyStr ''blue''"
          empty_world]
        Set_signals[of ex_Widget 0 "''com.example.Widget''" "Some ''label''" "PyStr ''blue''"
          empty_world]
        Set_signals[of ex_Widget 0 "''com.example.Other''" "Some ''color''" "PyStr ''blue''"
          empty_world]
        Set_signals[of ex_Notifier 0 "''com.example.Notifier''" "Some ''level''" "PyInt 2"
          empty_world]
  by (simp add: Widget_index Notifier_index pif_lookup_def Widget_attrs Notifier_attrs
        ex_color_def ex_label_def ex_level_def property_call_def property_init_def setter_def
        getter_def def_func_def Let_def PropertiesChanged_def log_debug_def Set_world_frame)

subsection \<open>C3: GetAll\<close>

lemma GetAll_unfold:
  "GetAll cls self i w =
     (case map_of (fst (get_property_iface_map cls w)) i of
        None \<Rightarrow> (Inl (no_such_interface i), GetAll_world cls i w)
      | Some props \<Rightarrow> GetAll_items cls self i (map fst props) [] (GetAll_world cls i w))"
  by (simp add: GetAll_def GetAll_world_def split_def Let_def split: option.splits)

lemma GetAll_items_keys:
  "GetAll_items cls self i ks acc w = (Inr res, w') \<Longrightarrow>
   fst ` set res = fst ` set acc \<union> set ks"
proof (induction ks arbitrary: acc w)
  case Nil
  then show ?case by simp
next
  case (Cons k ks)
  obtain r w1 where g: "Get cls self i k w = (r, w1)" by (cases "Get cls self i k w")
  show ?case
  proof (cases r)
    case (Inl e)
    with Cons.prems g show ?thesis by simp
  next
    case (Inr v)
    with Cons.prems g have "GetAll_items cls self i ks (AList.update k v acc) w1 = (Inr res, w')"
      by simp
    from Cons.IH[OF this] show ?thesis by (auto simp: dom_update)
  qed
qed

lemma GetAll_items_append:
  "GetAll_items cls self i (ks1 @ ks2) acc w =
     (case GetAll_items cls self i ks1 acc w of
        (Inl e, w') \<Rightarrow> (Inl e, w')
      | (Inr acc', w') \<Rightarrow> GetAll_items cls self i ks2 acc' w')"
proof (induction ks1 arbitrary: acc w)
  case Nil
  show ?case by simp
next
  case (Cons k ks1)
  obtain r w1 where g: "Get cls self i k w = (r, w1)" by (cases "Get cls self i k w")
  show ?case by (cases r) (simp_all add: g Cons.IH)
qed

lemma GetAll_items_failure:
  "GetAll_items cls self i ks acc w = (Inl e, w') \<Longrightarrow>
   \<exists>earlier k later acc' wk. ks = earlier @ k # later \<and>
     GetAll_items cls self i earlier acc w = (Inr acc', wk) \<and>
     Get cls self i k wk = (Inl e, w')"
proof (induction ks arbitrary: acc w)
  case Nil
  then show ?case by simp
next
  case (Cons k ks)
  obtain r w1 where g: "Get cls self i k w = (r, w1)" by (cases "Get cls self i k w")
  show ?case
  proof (cases r)
    case (Inl e')
    with Cons.prems g have "e' = e" "w1 = w'" by simp_all
    with Inl g have "k # ks = [] @ k # ks \<and>
        GetAll_items cls self i [] acc w = (Inr acc, w) \<and> Get cls self i k w = (Inl e, w')"
      by simp
    then show ?thesis by blast
  next
    case (Inr v)
    with Cons.prems g have "GetAll_items cls self i ks (AList.update k v acc) w1 = (Inl e, w')"
      by simp
    from Cons.IH[OF this] obtain earlier k' later acc' wk where
      h: "ks = earlier @ k' # later"
         "GetAll_items cls self i earlier (AList.update k v acc) w1 = (Inr acc', wk)"
         "Get cls self i k' wk = (Inl e, w')"
      by blast
    then have "k # ks = (k # earlier) @ k' # later \<and>
        GetAll_items cls self i (k # earlier) acc w = (Inr acc', wk) \<and>
        Get cls self i k' wk = (Inl e, w')"
      using g Inr by simp
    then show ?thesis by blast
  qed
qed

lemma GetAll_success_keys:
  "map_of (fst (get_property_iface_map cls w)) i = Some props \<Longrightarrow>
   fst (GetAll cls self i w) = Inr res \<Longrightarrow> fst ` set res = fst ` set props"
proof -
  assume a: "map_of (fst (get_property_iface_map cls w)) i = Some props"
     and b: "fst (GetAll cls self i w) = Inr res"
  then have "GetAll_items cls self i (map fst props) [] (GetAll_world cls i w)
               = (Inr res, snd (GetAll cls self i w))"
    by (auto simp: GetAll_unfold prod_eq_iff)
  from GetAll_items_keys[OF this] show ?thesis by simp
qed

lemmas eval_defs = ex_defs run_defs Get_def Set_def GetAll_def GetAll_world_def Get_world_def
  Set_world_def getattr_obj_def setattr_obj_def read_def property_set_def err_defs
  PropertiesChanged_def

lemma Gadget_attrs:
  "find_attr (mro ex_Gadget) ''size'' = Some (DBusProp ex_size)"
  by (simp_all add: ex_Gadget_def mro_def)

lemma GetAll_Gadget:
  "fst (GetAll ex_Gadget 0 ''com.example.Gadget'' empty_world) = Inr [(Some ''size'', PyInt 3)]"
  by (simp add: eval_defs)

lemma GetAll_Widget_prefix:
  "fst (GetAll_items ex_Widget 0 ''com.example.Widget'' [Some ''color'', Some ''label''] []
          (GetAll_world ex_Widget ''com.example.Widget'' empty_world))
     = Inr [(Some ''color'', PyStr ''red''), (Some ''label'', PyStr ''widget'')]"
  by (simp add: eval_defs)

lemma GetAll_Widget_pin:
  "fst (Get ex_Widget 0 ''com.example.Widget'' (Some ''pin'')
         (snd (GetAll_items ex_Widget 0 ''com.example.Widget'' [Some ''color'', Some ''label''] []
                 (GetAll_world ex_Widget ''com.example.Widget'' empty_world))))
     = Inl (DBusException [''property is not readable''])"
  by (simp add: eval_defs)


text \<open>
  C3. With \<open>m\<close> the map that the object's class answers in the state of the call:
  for an interface name that is no key of \<open>m\<close>, GetAll raises
  DBusException(PROPERTIES_IFACE, "No such interface ..."); for one that is, a mapping
  that GetAll returns has exactly the property names under that interface as its keys;
  when the reads of the names \<open>earlier\<close> succeeded and the read of the next name
  \<open>k\<close> raises \<open>e\<close>, GetAll raises \<open>e\<close> and returns no mapping; and GetAll raises
  for such an interface only in that way, with the exception of the first read that
  fails.
\<close>

theorem GetAll_keys_and_failure:
  "(map_of (fst (get_property_iface_map cls w)) i = None \<longrightarrow>
      GetAll cls self i w = (Inl (no_such_interface i), GetAll_world cls i w))
   \<and> (map_of (fst (get_property_iface_map cls w)) i = Some props \<and>
       fst (GetAll cls self i w) = Inr res \<longrightarrow> fst ` set res = fst ` set props)
   \<and> (map_of (fst (get_property_iface_map cls w)) i = Some props \<and>
       map fst props = earlier @ k # later \<and>
       GetAll_items cls self i earlier [] (GetAll_world cls i w) = (Inr acc, wk) \<and>
       Get cls self i k wk = (Inl e, we) \<longrightarrow> GetAll cls self i w = (Inl e, we))
   \<and> (map_of (fst (get_property_iface_map cls w)) i = Some props \<and>
       fst (GetAll cls self i w) = Inl e \<longrightarrow>
         (\<exists>ks1 k1 ks2 acc1 w1 w2. map fst props = ks1 @ k1 # ks2 \<and>
            GetAll_items cls self i ks1 [] (GetAll_world cls i w) = (Inr acc1, w1) \<and>
            Get cls self i k1 w1 = (Inl e, w2)))"
proof (intro conjI impI)
  assume "map_of (fst (get_property_iface_map cls w)) i = None"
  then show "GetAll cls self i w = (Inl (no_such_interface i), GetAll_world cls i w)"
    by (simp add: GetAll_unfold)
next
  assume "map_of (fst (get_property_iface_map cls w)) i = Some props \<and>
             fst (GetAll cls self i w) = Inr res"
  then show "fst ` set res = fst ` set props"
    using GetAll_success_keys[of cls w i props self res] by simp
next
  assume "map_of (fst (get_property_iface_map cls w)) i = Some props \<and>
       map fst props = earlier @ k # later \<and>
       GetAll_items cls self i earlier [] (GetAll_world cls i w) = (Inr acc, wk) \<and>
       Get cls self i k wk = (Inl e, we)"
  then show "GetAll cls self i w = (Inl e, we)"
    by (auto simp: GetAll_unfold GetAll_items_append)
next
  assume a: "map_of (fst (get_property_iface_map cls w)) i = Some props \<and>
       fst (GetAll cls self i w) = Inl e"
  then have "GetAll_items cls self i (map fst props) [] (GetAll_world cls i w)
               = (Inl e, snd (GetAll cls self i w))"
    by (auto simp: GetAll_unfold prod_eq_iff)
  from GetAll_items_failure[OF this]
  show "\<exists>ks1 k1 ks2 acc1 w1 w2. map fst props = ks1 @ k1 # ks2 \<and>
            GetAll_items cls self i ks1 [] (GetAll_world cls i w) = (Inr acc1, w1) \<and>
            Get cls self i k1 w1 = (Inl e, w2)"
    by blast
qed

text \<open>An interface that Widget does not have; the one property of Gadget; and
  Widget's own interface, where the write-only \<^verbatim>\<open>pin\<close> makes the whole GetAll
  fail after \<^verbatim>\<open>color\<close> and \<^verbatim>\<open>label\<close> were read.\<close>

theorem GetAll_keys_and_failure_witness:
  "fst (GetAll ex_Widget 0 ''com.example.Other'' empty_world)
     = Inl (DBusException [''org.freedesktop.DBus.Properties'',
                            ''No such interface com.example.Other''])
   \<and> fst (GetAll ex_Gadget 0 ''com.example.Gadget'' empty_world)
       = Inr [(Some ''size'', PyInt 3)]
   \<and> fst ` set [(Some ''size'', PyInt 3)] = fst ` set [(Some ''size'', ''size'')]
   \<and> fst (GetAll ex_Widget 0 ''com.example.Widget'' empty_world)
       = Inl (DBusException [''property is not readable''])"
  using GetAll_keys_and_failure[where cls = ex_Widget and w = empty_world
          and i = "''com.example.Other''" and self = 0]
        GetAll_keys_and_failure[where cls = ex_Gadget and w = empty_world
          and i = "''com.example.Gadget''" and self = 0
          and props = "[(Some ''size'', ''size'')]" and res = "[(Some ''size'', PyInt 3)]"]
        GetAll_keys_and_failure[where cls = ex_Widget and w = empty_world
          and i = "''com.example.Widget''" and self = 0
          and props = "[(Some ''color'', ''color''), (Some ''label'', ''label''),
                        (Some ''pin'', ''pin'')]"
          and earlier = "[Some ''color'', Some ''label'']" and k = "Some ''pin''" and later = "[]"
          and acc = "[(Some ''color'', PyStr ''red''), (Some ''label'', PyStr ''widget'')]"
          and wk = "snd (GetAll_items ex_Widget 0 ''com.example.Widget''
                         [Some ''color'', Some ''label''] []
                         (GetAll_world ex_Widget ''com.example.Widget'' empty_world))"
          and e = "DBusException [''property is not readable'']"
          and we = "snd (Get ex_Widget 0 ''com.example.Widget'' (Some ''pin'')
                         (snd (GetAll_items ex_Widget 0 ''com.example.Widget''
                                 [Some ''color'', Some ''label''] []
                                 (GetAll_world ex_Widget ''com.example.Widget'' empty_world))))"]
        GetAll_Widget_prefix GetAll_Widget_pin
  by (simp add: Widget_index Gadget_index GetAll_Gadget prod_eq_iff err_defs)

subsection \<open>C9: a subclass and the map cached on an ancestor\<close>

lemma map_of_None_keys: "map_of ps k = None \<Longrightarrow> k \<notin> fst ` set ps"
  by (simp add: map_of_eq_None_iff)

lemma world_Widget_built_pim:
  "pim world_Widget_built =
     [(''Widget'', [(''com.example.Widget'',
        [(Some ''color'', ''color''), (Some ''label'', ''label''), (Some ''pin'', ''pin'')])])]"
  by (simp add: ex_defs run_defs)

lemma ex_cnames [simp]:
  "cname ex_Object = ''Object''" "cname ex_Widget = ''Widget''" "cname ex_Gadget = ''Gadget''"
  "cname ex_Sprocket = ''Sprocket''"
  by (simp_all add: ex_Object_def ex_Widget_def ex_Gadget_def ex_Sprocket_def)














subsection \<open>C5: the first lookup of a class\<close>

text \<open>What holds of the cache: a class whose lookup of the attribute answers
  \<^verbatim>\<open>None\<close> builds a map and keeps it, and a class that has been assigned a map
  answers it and changes nothing.\<close>

lemma first_lookup_builds_then_cached:
  assumes "class_attr_pim (mro cls) w = None"
  shows "get_property_iface_map cls (snd (get_property_iface_map cls w))
           = (fst (get_property_iface_map cls w), snd (get_property_iface_map cls w))"
  using get_map_cached[OF get_map_caches[OF assms]] .

text \<open>
  C5 fails on the code where a class is first looked up after one of its ancestors:
  the test \<^verbatim>\<open>cls._property_iface_map is None\<close> reads the ancestor's attribute. In
  the state where Widget has built its map, Gadget has none; Gadget's first lookup
  returns Widget's map and leaves the state as it was, so nothing is built or cached
  for Gadget, whose own build would give a map with \<^verbatim>\<open>size\<close>.
\<close>

theorem first_lookup_of_subclass_builds_nothing:
  "map_of (pim world_Widget_built) (cname ex_Gadget) = None
   \<and> get_property_iface_map ex_Gadget world_Widget_built =
       ([(''com.example.Widget'',
         [(Some ''color'', ''color''), (Some ''label'', ''label''), (Some ''pin'', ''pin'')])],
        world_Widget_built)
   \<and> fst (build_property_iface_map ex_Gadget world_Widget_built) =
       [(''com.example.Gadget'', [(Some ''size'', ''size'')])]"
proof -
  have "fst (build_property_iface_map ex_Gadget world_Widget_built) =
       [(''com.example.Gadget'', [(Some ''size'', ''size'')])]"
    by (simp add: ex_defs run_defs build_fst[of ex_Gadget world_Widget_built empty_world])
  then show ?thesis
    by (simp add: get_property_iface_map_def mro_def ex_Gadget_def world_Widget_built_pim)
qed

subsection \<open>C1: inherited descriptors\<close>

text \<open>
  C1 fails on the code: the loop runs over \<^verbatim>\<open>dir(cls)\<close>, which has the inherited
  names, and reads each with \<^verbatim>\<open>cls.__dict__.get(name)\<close>, which finds the class's own
  attributes only (lemma \<open>build_lookup\<close>). Widget is an ancestor of Gadget and
  declares \<^verbatim>\<open>color\<close>; the name is in \<^verbatim>\<open>dir(Gadget)\<close>, and the map built for Gadget
  has \<^verbatim>\<open>size\<close> alone.
\<close>

theorem build_misses_inherited_property:
  "ex_Widget \<in> set (ancestors ex_Gadget)
   \<and> map_of (cdict ex_Widget) ''color'' = Some (DBusProp ex_color)
   \<and> ''color'' \<in> set (dir_cls ex_Gadget)
   \<and> fst (build_property_iface_map ex_Gadget w) =
       [(''com.example.Gadget'', [(Some ''size'', ''size'')])]
   \<and> pif_lookup (fst (build_property_iface_map ex_Gadget w))
        ''com.example.Widget'' (Some ''color'') = None"
proof -
  have 1: "ex_Widget \<in> set (ancestors ex_Gadget)" by (simp add: ex_Gadget_def)
  have 2: "map_of (cdict ex_Widget) ''color'' = Some (DBusProp ex_color)"
    by (simp add: ex_Widget_def)
  have 3: "''color'' \<in> set (dir_cls ex_Gadget)"
    by (simp add: dir_cls_def mro_def ex_Gadget_def ex_Widget_def ex_Object_def)
  have 4: "fst (build_property_iface_map ex_Gadget w) =
       [(''com.example.Gadget'', [(Some ''size'', ''size'')])]"
    using build_fst[of ex_Gadget w empty_world] by (simp add: ex_defs run_defs)
  show ?thesis by (simp add: 1 2 3 4 pif_lookup_def)
qed

end
